theory Spec2Isabelle
  imports Main "HOL-Library.Sublist"
begin

section \<open>The admin users page (web/src/app/admin/users/page.tsx)\<close>

text \<open>
  The page is a tree of React function components. A component is modelled as a function
  from its props, its own state and the SWR cache to what it renders; an event handler is a
  function from the state before the event to the state after it. The deployment flag
  \<open>NEXT_PUBLIC_CLOUD_ENABLED\<close> comes from a module that is not part of this file, so it
  is an argument wherever the source reads it. The element type of
  \<open>InvitedUserSnapshot[]\<close> is likewise imported, and is the type parameter \<open>'u\<close>.
  Props that are callbacks (\<open>setPopup\<close>, the bound \<open>mutate\<close> handles) carry no data
  and do not appear in the rendered tree.
\<close>

subsection \<open>JavaScript values read by the handlers\<close>

text \<open>
  \<open>onFailure\<close> reads \<open>(await res.json()).detail\<close> and splices it into a template
  literal. The body of a response is untyped, so it is a value of \<open>js_value\<close>, here
  without numbers: the bodies covered are those built from the constructors below. An
  object is the list of its own properties, each name once.
\<close>

datatype js_value =
    JUndefined
  | JNull
  | JBool bool
  | JString string
  | JArray "js_value list"
  | JObject "(string \<times> js_value) list"

datatype js_error = SyntaxError | TypeError

text \<open>
  The string a value contributes to a template literal (ECMAScript \<open>ToString\<close>). An
  array is joined with commas, \<open>null\<close> and \<open>undefined\<close> elements giving the empty
  string. An object parsed from JSON is converted by the \<open>toString\<close> it inherits, unless
  it has an own property of that name: that property is not callable and the inherited
  \<open>valueOf\<close> returns the object itself, so the conversion throws a \<open>TypeError\<close>. The
  elements of an array are converted in order, and the first that throws ends the
  conversion.
\<close>

fun join_comma :: "string list \<Rightarrow> string" where
  "join_comma [] = []"
| "join_comma [s] = s"
| "join_comma (s # t # ss) = s @ '','' @ join_comma (t # ss)"

fun ToString :: "js_value \<Rightarrow> js_error + string"
  and ToString_elements :: "js_value list \<Rightarrow> js_error + string list" where
  "ToString JUndefined = Inr ''undefined''"
| "ToString JNull = Inr ''null''"
| "ToString (JBool b) = Inr (if b then ''true'' else ''false'')"
| "ToString (JString s) = Inr s"
| "ToString (JArray vs) =
     (case ToString_elements vs of Inl e \<Rightarrow> Inl e | Inr ss \<Rightarrow> Inr (join_comma ss))"
| "ToString (JObject ps) =
     (if ''toString'' \<in> set (map fst ps) then Inl TypeError else Inr ''[object Object]'')"
| "ToString_elements [] = Inr []"
| "ToString_elements (v # vs) =
     (case (if v = JUndefined \<or> v = JNull then Inr [] else ToString v) of
        Inl e \<Rightarrow> Inl e
      | Inr s \<Rightarrow> (case ToString_elements vs of Inl e \<Rightarrow> Inl e | Inr ss \<Rightarrow> Inr (s # ss)))"

text \<open>
  Reading the property \<open>detail\<close>: a \<open>TypeError\<close> on \<open>undefined\<close> and \<open>null\<close>,
  the property's value on an object that has it, \<open>undefined\<close> everywhere else.
\<close>

fun get_detail :: "js_value \<Rightarrow> js_error + js_value" where
  "get_detail JUndefined = Inl TypeError"
| "get_detail JNull = Inl TypeError"
| "get_detail (JObject ps) =
     Inr (case map_of ps ''detail'' of None \<Rightarrow> JUndefined | Some v \<Rightarrow> v)"
| "get_detail v = Inr JUndefined"

text \<open>
  A \<open>Response\<close>, as far as the page looks at it: what \<open>res.json()\<close> settles to, either
  the parsed body or the rejection of a body that is not JSON.
\<close>

datatype Response = Response (json: "js_error + js_value")

subsection \<open>The SWR cache\<close>

text \<open>
  A cache key as the filter of \<open>mutate\<close> sees it: the page's own keys are strings, other
  pages of the application may hold keys that are not.
\<close>

datatype swr_key = StringKey string | ArrayKey "string list"

text \<open>
  The error thrown by the fetcher, as far as the page reads it: the value of
  \<open>error?.info?.detail\<close>, absent when \<open>info\<close> or \<open>detail\<close> is.
\<close>

datatype fetch_error = FetchError (info_detail: "string option")

record 'a swr_response =
  data :: "'a option"
  error :: "fetch_error option"
  isLoading :: bool

text \<open>
  The type argument of \<open>useSWR<T>\<close> is an unchecked view of the cache, so the cache is
  one store for each type the page reads at: lists of user snapshots and lists of strings.
  The cache is shared by the whole application. \<open>other_hooks\<close> are the keys of the
  hooks that components outside this page's tree have mounted, and \<open>stale_keys\<close> the
  keys the cache still holds an entry for from hooks that are no longer mounted.
  \<open>current_users_path\<close> belongs to the table of current users, see \<open>table_hooks\<close>
  below.
\<close>

record 'u swr_cache =
  user_lists :: "swr_key \<Rightarrow> 'u list swr_response"
  string_lists :: "swr_key \<Rightarrow> string list swr_response"
  current_users_path :: string
  other_hooks :: "swr_key list"
  stale_keys :: "swr_key list"

text \<open>
  \<open>useSWR(key, fetcher)\<close> returns the entry of the key and subscribes to it, which is
  what makes SWR fetch it; with the key \<open>null\<close> nothing is fetched and the response is
  empty. The second component is the list of keys the call subscribed to.
\<close>

definition useSWR ::
  "(swr_key \<Rightarrow> 'a swr_response) \<Rightarrow> swr_key option \<Rightarrow> 'a swr_response \<times> swr_key list" where
  "useSWR store key =
     (case key of
        None \<Rightarrow> (\<lparr>data = None, error = None, isLoading = False\<rparr>, [])
      | Some k \<Rightarrow> (store k, [k]))"

text \<open>\<open>s.startsWith(p)\<close>\<close>

definition startsWith :: "string \<Rightarrow> string \<Rightarrow> bool" where
  "startsWith s p = prefix p s"

text \<open>
  \<open>mutate(filter)\<close> with no data runs over the keys the cache holds, \<open>held\<close>, and
  revalidates each one the filter accepts. Revalidating a key runs the revalidator of a
  hook mounted on it: a key that some hook of \<open>hooks\<close> is mounted on is fetched again,
  once, and its entry keeps its data meanwhile; a key that no hook is mounted on is not
  fetched. The result is the list of keys fetched again.
\<close>

definition mutate ::
  "(swr_key \<Rightarrow> bool) \<Rightarrow> swr_key list \<Rightarrow> swr_key list \<Rightarrow> swr_key list" where
  "mutate key_filter held hooks = filter (\<lambda>k. key_filter k \<and> k \<in> set hooks) held"

subsection \<open>Rendered elements\<close>

text \<open>
  The three tables with their data props. \<open>SignedUpUserTable\<close>: \<open>invitedUsers\<close>,
  \<open>q\<close>. \<open>InvitedUserTable\<close> and \<open>PendingUsersTable\<close>: \<open>users\<close>, \<open>error\<close>,
  \<open>isLoading\<close>, \<open>q\<close>.
\<close>

datatype 'u user_table =
    SignedUpUserTable "'u list" string
  | InvitedUserTable "'u list" "fetch_error option" bool string
  | PendingUsersTable "'u list" "fetch_error option" bool string

text \<open>
  What \<open>UsersTables\<close> returns. \<open>ErrorCallout\<close>: \<open>errorTitle\<close>, \<open>errorMsg\<close>.
  \<open>Tabs\<close>: \<open>defaultValue\<close>, the triggers (value and label) and the contents (value,
  card title and table).
\<close>

datatype 'u element =
    ThreeDotsLoader
  | ErrorCallout string "string option"
  | Tabs string "(string \<times> string) list" "(string \<times> string \<times> 'u user_table) list"

text \<open>\<open>xs || []\<close> on an array that may be undefined (an array, even empty, is truthy).\<close>

definition or_empty :: "'a list option \<Rightarrow> 'a list" where
  "or_empty v = (case v of None \<Rightarrow> [] | Some xs \<Rightarrow> xs)"

subsection \<open>UsersTables\<close>

definition UsersTables :: "bool \<Rightarrow> 'u swr_cache \<Rightarrow> string \<Rightarrow> swr_key list \<times> 'u element" where
  "UsersTables NEXT_PUBLIC_CLOUD_ENABLED cache qprop =
     (let (invited, k1) =
            useSWR (user_lists cache) (Some (StringKey ''/api/manage/users/invited''));
          (domains, k2) =
            useSWR (string_lists cache) (Some (StringKey ''/api/manage/admin/valid-domains''));
          (pending, k3) =
            useSWR (user_lists cache)
              (if NEXT_PUBLIC_CLOUD_ENABLED then Some (StringKey ''/api/tenants/users/pending'')
               else None)
      in (k1 @ k2 @ k3,
          if data domains = None then ThreeDotsLoader
          else if error domains \<noteq> None then
            ErrorCallout ''Error loading valid domains''
              (case error domains of None \<Rightarrow> None | Some e \<Rightarrow> info_detail e)
          else
            Tabs ''current''
              ([(''current'', ''Current Users''), (''invited'', ''Invited Users'')] @
               (if NEXT_PUBLIC_CLOUD_ENABLED then [(''pending'', ''Pending Users'')] else []))
              ([(''current'', ''Current Users'',
                   SignedUpUserTable (or_empty (data invited)) qprop),
                (''invited'', ''Invited Users'',
                   InvitedUserTable (or_empty (data invited)) (error invited)
                     (isLoading invited) qprop)] @
               (if NEXT_PUBLIC_CLOUD_ENABLED then
                  [(''pending'', ''Pending Users'',
                      PendingUsersTable (or_empty (data pending)) (error pending)
                        (isLoading pending) qprop)]
                else []))))"

text \<open>What a rendered element shows: the values of its tab triggers, and its tables.\<close>

fun tab_values :: "'u element \<Rightarrow> string list" where
  "tab_values (Tabs d triggers contents) = map fst triggers"
| "tab_values e = []"

fun tables :: "'u element \<Rightarrow> 'u user_table list" where
  "tables (Tabs d triggers contents) = map (\<lambda>c. snd (snd c)) contents"
| "tables e = []"

fun is_pending_table :: "'u user_table \<Rightarrow> bool" where
  "is_pending_table (PendingUsersTable us e l qp) = True"
| "is_pending_table t = False"

fun is_error_panel :: "'u element \<Rightarrow> bool" where
  "is_error_panel (ErrorCallout title msg) = True"
| "is_error_panel e = False"

subsection \<open>State of the page\<close>

text \<open>
  A \<open>PopupSpec\<close>: the message and its kind (\<open>"success"\<close> or \<open>"error"\<close> in the
  source).
\<close>

datatype popup_type = success_popup | error_popup

record PopupSpec =
  message :: string
  type :: popup_type

text \<open>
  The state cells of the page: \<open>popup\<close> (the last spec given to \<open>setPopup\<close>),
  \<open>query\<close> and \<open>q\<close> belong to \<open>SearchableTables\<close>, \<open>modal\<close> and
  \<open>showConfirmation\<close> to \<open>AddUserButton\<close>. \<open>revalidated\<close> records the effect the
  handlers have outside the component: the keys they made SWR fetch again, in order.
\<close>

record page_state =
  popup :: "PopupSpec option"
  query :: string
  q :: string
  modal :: bool
  showConfirmation :: bool
  revalidated :: "swr_key list"

definition initial_state :: page_state where
  "initial_state =
     \<lparr>popup = None, query = [], q = [], modal = False, showConfirmation = False,
      revalidated = []\<rparr>"

definition setPopup :: "PopupSpec \<Rightarrow> page_state \<Rightarrow> page_state" where
  "setPopup spec s = s\<lparr>popup := Some spec\<rparr>"

subsection \<open>AddUserButton\<close>

definition AddUserButton_useSWR ::
  "'u swr_cache \<Rightarrow> 'u list swr_response \<times> swr_key list" where
  "AddUserButton_useSWR cache =
     useSWR (user_lists cache) (Some (StringKey ''/api/manage/users/invited''))"

text \<open>The filter \<open>onSuccess\<close> gives to \<open>mutate\<close>.\<close>

definition onSuccess_filter :: "swr_key \<Rightarrow> bool" where
  "onSuccess_filter key =
     (case key of
        StringKey k \<Rightarrow> startsWith k ''/api/manage/users''
      | ArrayKey ks \<Rightarrow> False)"

definition onSuccess :: "swr_key list \<Rightarrow> swr_key list \<Rightarrow> page_state \<Rightarrow> page_state" where
  "onSuccess held hooks s =
     (let s1 = s\<lparr>revalidated := revalidated s @ mutate onSuccess_filter held hooks\<rparr>;
          s2 = s1\<lparr>modal := False\<rparr>
      in setPopup \<lparr>message = ''Users invited!'', type = success_popup\<rparr> s2)"

text \<open>
  \<open>onFailure\<close> is asynchronous: when \<open>res.json()\<close> rejects, when reading \<open>detail\<close>
  throws, or when the template literal cannot convert \<open>detail\<close> to a string, the
  promise it returns rejects before any state is written.
\<close>

definition onFailure :: "Response \<Rightarrow> page_state \<Rightarrow> js_error + page_state" where
  "onFailure res s =
     (case json res of
        Inl e \<Rightarrow> Inl e
      | Inr body \<Rightarrow>
          (case get_detail body of
             Inl e \<Rightarrow> Inl e
           | Inr err \<Rightarrow>
               (case ToString err of
                  Inl e \<Rightarrow> Inl e
                | Inr text \<Rightarrow>
                    Inr (setPopup
                      \<lparr>message = ''Failed to invite users - '' @ text,
                       type = error_popup\<rparr> s))))"

definition handleInviteClick :: "bool \<Rightarrow> 'u list option \<Rightarrow> page_state \<Rightarrow> page_state" where
  "handleInviteClick NEXT_PUBLIC_CLOUD_ENABLED invitedUsers s =
     (if \<not> NEXT_PUBLIC_CLOUD_ENABLED \<and>
         (case invitedUsers of None \<Rightarrow> False | Some us \<Rightarrow> length us = 0)
      then s\<lparr>showConfirmation := True\<rparr>
      else s\<lparr>modal := True\<rparr>)"

definition handleConfirmFirstInvite :: "page_state \<Rightarrow> page_state" where
  "handleConfirmFirstInvite s = (s\<lparr>showConfirmation := False\<rparr>)\<lparr>modal := True\<rparr>"

text \<open>
  The dialogs \<open>AddUserButton\<close> renders below its button: the confirmation of the first
  invitation, and the modal that holds \<open>BulkAdd\<close>.
\<close>

datatype dialog = ConfirmEntityModal | BulkAddModal

definition AddUserButton :: "'u swr_cache \<Rightarrow> page_state \<Rightarrow> swr_key list \<times> dialog list" where
  "AddUserButton cache s =
     (let (invited, k) = AddUserButton_useSWR cache
      in (k,
          (if showConfirmation s then [ConfirmEntityModal] else []) @
          (if modal s then [BulkAddModal] else [])))"

subsection \<open>SearchableTables and the events of the page\<close>

text \<open>
  What \<open>SearchableTables\<close> renders: the popup, the dialogs of \<open>AddUserButton\<close>, the
  search bar showing \<open>query\<close>, and \<open>UsersTables\<close> given \<open>q\<close>.
\<close>

datatype 'u page_view =
  PageView (shown_popup: "PopupSpec option") (dialogs: "dialog list")
    (search_bar: string) (users_tables: "'u element")

definition SearchableTables ::
  "bool \<Rightarrow> 'u swr_cache \<Rightarrow> page_state \<Rightarrow> swr_key list \<times> 'u page_view" where
  "SearchableTables NEXT_PUBLIC_CLOUD_ENABLED cache s =
     (let (k1, ds) = AddUserButton cache s;
          (k2, el) = UsersTables NEXT_PUBLIC_CLOUD_ENABLED cache (q s)
      in (k1 @ k2, PageView (popup s) ds (query s) el))"

text \<open>
  Modelled from the spec: the three tables are components that are not part of this file,
  so the hooks they mount are taken from the spec. The table of current users has a
  source of its own besides the \<open>invitedUsers\<close> it is given (spec 4.3), and the
  invalidation of the users namespace is what re-synchronises the current list (spec
  4.1): its key lies inside the namespace \<open>/api/manage/users\<close>. The spec does not give
  the rest of the key, which is the argument \<open>path\<close>. The tables of invited and of
  pending users are given their rows as props and fetch nothing. A table holds its hook
  while \<open>UsersTables\<close> renders it.
\<close>

fun table_hooks :: "string \<Rightarrow> 'u user_table \<Rightarrow> swr_key list" where
  "table_hooks path (SignedUpUserTable us qp) = [StringKey (''/api/manage/users'' @ path)]"
| "table_hooks path t = []"

text \<open>
  The hooks mounted while the page shows: those of \<open>AddUserButton\<close> and
  \<open>UsersTables\<close>, those of the tables rendered, and those of the rest of the
  application. The cache holds each of their keys once, and the stale keys.
\<close>

definition mounted_hooks :: "bool \<Rightarrow> 'u swr_cache \<Rightarrow> page_state \<Rightarrow> swr_key list" where
  "mounted_hooks NEXT_PUBLIC_CLOUD_ENABLED cache s =
     (let (ks, view) = SearchableTables NEXT_PUBLIC_CLOUD_ENABLED cache s
      in ks @ concat (map (table_hooks (current_users_path cache)) (tables (users_tables view)))
           @ other_hooks cache)"

definition held_keys :: "bool \<Rightarrow> 'u swr_cache \<Rightarrow> page_state \<Rightarrow> swr_key list" where
  "held_keys NEXT_PUBLIC_CLOUD_ENABLED cache s =
     remdups (mounted_hooks NEXT_PUBLIC_CLOUD_ENABLED cache s @ stale_keys cache)"

text \<open>
  One event for each callback the page hands to an element: the search bar's
  \<open>setQuery\<close> and \<open>onSearch\<close>, the button's \<open>onClick\<close>, the confirmation's
  \<open>onSubmit\<close> and \<open>onClose\<close>, the modal's \<open>onOutsideClick\<close>, \<open>BulkAdd\<close>'s
  \<open>onSuccess\<close> and \<open>onFailure\<close>, and \<open>setPopup\<close> called by one of the tables.
  A call of \<open>onFailure\<close> that rejects has written no state, so the page stays as it
  was.
\<close>

datatype event =
    SetQuery string
  | OnSearch
  | InviteClick
  | ConfirmSubmit
  | ConfirmClose
  | ModalOutsideClick
  | BulkAddSuccess
  | BulkAddFailure Response
  | TableSetPopup PopupSpec

fun step :: "bool \<Rightarrow> 'u swr_cache \<Rightarrow> event \<Rightarrow> page_state \<Rightarrow> page_state" where
  "step cloud cache (SetQuery text) s = s\<lparr>query := text\<rparr>"
| "step cloud cache OnSearch s = s\<lparr>q := query s\<rparr>"
| "step cloud cache InviteClick s =
     handleInviteClick cloud (data (fst (AddUserButton_useSWR cache))) s"
| "step cloud cache ConfirmSubmit s = handleConfirmFirstInvite s"
| "step cloud cache ConfirmClose s = s\<lparr>showConfirmation := False\<rparr>"
| "step cloud cache ModalOutsideClick s = s\<lparr>modal := False\<rparr>"
| "step cloud cache BulkAddSuccess s =
     onSuccess (held_keys cloud cache s) (mounted_hooks cloud cache s) s"
| "step cloud cache (BulkAddFailure res) s =
     (case onFailure res s of Inl e \<Rightarrow> s | Inr s' \<Rightarrow> s')"
| "step cloud cache (TableSetPopup spec) s = setPopup spec s"

subsection \<open>Reading a rendered tree, and a cache to run the page on\<close>

text \<open>
  The \<open>users\<close> prop of the first \<open>InvitedUserTable\<close> among some tables, and the
  \<open>invitedUsers\<close> prop of the first \<open>SignedUpUserTable\<close>; \<open>None\<close> when no such
  table is rendered.
\<close>

fun displayed_invited :: "'u user_table list \<Rightarrow> 'u list option" where
  "displayed_invited [] = None"
| "displayed_invited (InvitedUserTable us e l qp # ts) = Some us"
| "displayed_invited (t # ts) = displayed_invited ts"

fun cross_referenced :: "'u user_table list \<Rightarrow> 'u list option" where
  "cross_referenced [] = None"
| "cross_referenced (SignedUpUserTable us qp # ts) = Some us"
| "cross_referenced (t # ts) = cross_referenced ts"

text \<open>
  A cache with users given by their email: the invited-users entry holds \<open>invited\<close>
  (still loading when absent), every other list of users holds one pending user, and the
  valid-domains entry holds \<open>domains\<close> and \<open>domains_error\<close>. The current users are
  keyed \<open>/api/manage/users/current\<close>, no other component has a hook mounted, and the
  cache still holds one key of the users namespace that an earlier page left behind.
\<close>

definition example_cache ::
  "string list option \<Rightarrow> string list option \<Rightarrow> fetch_error option \<Rightarrow> string swr_cache" where
  "example_cache invited domains domains_error =
     \<lparr>user_lists =
        (\<lambda>k. if k = StringKey ''/api/manage/users/invited''
             then \<lparr>data = invited, error = None, isLoading = (invited = None)\<rparr>
             else \<lparr>data = Some [''p@x.com''], error = None, isLoading = False\<rparr>),
      string_lists = (\<lambda>k. \<lparr>data = domains, error = domains_error, isLoading = False\<rparr>),
      current_users_path = ''/current'',
      other_hooks = [],
      stale_keys = [StringKey ''/api/manage/users/left-behind'']\<rparr>"

section \<open>Properties\<close>

subsection \<open>Shared facts\<close>




lemma onSuccess_filter_valid_domains:
  "\<not> onSuccess_filter (StringKey ''/api/manage/admin/valid-domains'')"
  by (simp add: onSuccess_filter_def startsWith_def)

lemma users_tables_of_page:
  "users_tables (snd (SearchableTables cloud cache s)) = snd (UsersTables cloud cache (q s))"
  by (simp add: SearchableTables_def AddUserButton_def AddUserButton_useSWR_def useSWR_def
      split: prod.splits)

lemma UsersTables_loader_without_domains:
  assumes "data (string_lists cache (StringKey ''/api/manage/admin/valid-domains'')) = None"
  shows "snd (UsersTables cloud cache qp) = ThreeDotsLoader"
  using assms by (simp add: UsersTables_def useSWR_def)

lemma UsersTables_error_panel_with_domains:
  assumes "data (string_lists cache (StringKey ''/api/manage/admin/valid-domains'')) = Some ds"
    and "error (string_lists cache (StringKey ''/api/manage/admin/valid-domains'')) = Some e"
  shows "snd (UsersTables cloud cache qp)
    = ErrorCallout ''Error loading valid domains'' (info_detail e)"
  using assms by (simp add: UsersTables_def useSWR_def)

subsection \<open>The gate on the valid domains\<close>

text \<open>
  Claim C1 asks that \<open>UsersTables\<close> render the error panel in every state in which the
  valid-domains entry carries an error. The source tests \<open>!validDomains\<close> before
  \<open>domainsError\<close>: when the first fetch of the valid domains has failed, the entry has
  an error and no data, and what is rendered is the loading indicator, not the error
  panel. (With data kept from an earlier fetch the error panel is rendered, see
  \<open>UsersTables_error_panel_with_domains\<close>.)
\<close>

theorem UsersTables_domains_error_without_data:
  "error (string_lists (example_cache None None (Some (FetchError (Some ''unreachable''))))
       (StringKey ''/api/manage/admin/valid-domains''))
     = Some (FetchError (Some ''unreachable''))
   \<and> snd (UsersTables False
         (example_cache None None (Some (FetchError (Some ''unreachable'')))) [])
     = ThreeDotsLoader
   \<and> \<not> is_error_panel
         (snd (UsersTables False
           (example_cache None None (Some (FetchError (Some ''unreachable'')))) []))"
  by (simp add: UsersTables_def useSWR_def example_cache_def)

subsection \<open>A successful bulk invite\<close>








subsection \<open>The first-invite gate\<close>

text \<open>
  Claim C3: in a single-tenant deployment whose invited-users entry holds the empty list,
  clicking the invite button while nothing is open shows the confirmation and no modal;
  from there, confirming closes the confirmation and opens the bulk-add modal, and
  dismissing closes the confirmation and leaves the page in the state it had before the
  click, with nothing open.
\<close>

theorem first_invite_confirmation_flow:
  assumes "\<not> cloud"
    and "data (user_lists cache (StringKey ''/api/manage/users/invited'')) = Some []"
    and "\<not> modal s" and "\<not> showConfirmation s"
  shows "snd (AddUserButton cache (step cloud cache InviteClick s)) = [ConfirmEntityModal]
    \<and> showConfirmation (step cloud cache InviteClick s)
    \<and> \<not> modal (step cloud cache InviteClick s)
    \<and> snd (AddUserButton cache (step cloud cache ConfirmSubmit (step cloud cache InviteClick s)))
        = [BulkAddModal]
    \<and> \<not> showConfirmation (step cloud cache ConfirmSubmit (step cloud cache InviteClick s))
    \<and> modal (step cloud cache ConfirmSubmit (step cloud cache InviteClick s))
    \<and> snd (AddUserButton cache (step cloud cache ConfirmClose (step cloud cache InviteClick s)))
        = []
    \<and> step cloud cache ConfirmClose (step cloud cache InviteClick s) = s"
  using assms
  by (simp add: AddUserButton_def AddUserButton_useSWR_def useSWR_def handleInviteClick_def
      handleConfirmFirstInvite_def)

theorem first_invite_confirmation_flow_witness:
  "data (user_lists (example_cache (Some []) (Some []) None)
       (StringKey ''/api/manage/users/invited'')) = Some []
   \<and> \<not> modal initial_state \<and> \<not> showConfirmation initial_state
   \<and> snd (AddUserButton (example_cache (Some []) (Some []) None)
        (step False (example_cache (Some []) (Some []) None) InviteClick initial_state))
     = [ConfirmEntityModal]
   \<and> snd (AddUserButton (example_cache (Some []) (Some []) None)
        (step False (example_cache (Some []) (Some []) None) ConfirmSubmit
          (step False (example_cache (Some []) (Some []) None) InviteClick initial_state)))
     = [BulkAddModal]
   \<and> step False (example_cache (Some []) (Some []) None) ConfirmClose
        (step False (example_cache (Some []) (Some []) None) InviteClick initial_state)
     = initial_state"
proof -
  have h: "data (user_lists (example_cache (Some []) (Some []) None)
      (StringKey ''/api/manage/users/invited'')) = Some []"
    by (simp add: example_cache_def)
  have idle: "\<not> modal initial_state" "\<not> showConfirmation initial_state"
    by (simp_all add: initial_state_def)
  show ?thesis
    using first_invite_confirmation_flow
      [of False "example_cache (Some []) (Some []) None" initial_state] h idle
    by (simp del: step.simps)
qed

text \<open>
  Claim C4: when the invited-users entry has no data yet, or holds a non-empty list,
  clicking the invite button opens the bulk-add modal and leaves the confirmation as it
  was, whatever the deployment flag; with no confirmation open before, the modal is the
  only dialog after the click.
\<close>

theorem invite_click_opens_modal_directly:
  assumes "data (user_lists cache (StringKey ''/api/manage/users/invited'')) = None
     \<or> (\<exists>u us. data (user_lists cache (StringKey ''/api/manage/users/invited''))
           = Some (u # us))"
  shows "modal (step cloud cache InviteClick s)
    \<and> showConfirmation (step cloud cache InviteClick s) = showConfirmation s
    \<and> (\<not> showConfirmation s \<longrightarrow>
         snd (AddUserButton cache (step cloud cache InviteClick s)) = [BulkAddModal])"
  using assms
  by (auto simp: AddUserButton_def AddUserButton_useSWR_def useSWR_def handleInviteClick_def)

theorem invite_click_opens_modal_directly_witness:
  "data (user_lists (example_cache None (Some []) None)
       (StringKey ''/api/manage/users/invited'')) = None
   \<and> snd (AddUserButton (example_cache None (Some []) None)
        (step False (example_cache None (Some []) None) InviteClick initial_state))
     = [BulkAddModal]
   \<and> data (user_lists (example_cache (Some [''a@x.com'']) (Some []) None)
       (StringKey ''/api/manage/users/invited'')) = Some [''a@x.com'']
   \<and> snd (AddUserButton (example_cache (Some [''a@x.com'']) (Some []) None)
        (step False (example_cache (Some [''a@x.com'']) (Some []) None) InviteClick
          initial_state))
     = [BulkAddModal]"
proof -
  have h1: "data (user_lists (example_cache None (Some []) None)
      (StringKey ''/api/manage/users/invited'')) = None"
    by (simp add: example_cache_def)
  have h2: "data (user_lists (example_cache (Some [''a@x.com'']) (Some []) None)
      (StringKey ''/api/manage/users/invited'')) = Some [''a@x.com'']"
    by (simp add: example_cache_def)
  have idle: "\<not> showConfirmation initial_state"
    by (simp add: initial_state_def)
  show ?thesis
    using invite_click_opens_modal_directly
        [of "example_cache None (Some []) None" False initial_state]
      invite_click_opens_modal_directly
        [of "example_cache (Some [''a@x.com'']) (Some []) None" False initial_state]
      h1 h2 idle
    by (simp del: step.simps)
qed

subsection \<open>A failing bulk invite\<close>

text \<open>
  Claim C5, as stated, has an error notification emitted for every failing bulk invite.
  When the body of the failing response is not JSON, \<open>res.json()\<close> rejects,
  \<open>onFailure\<close> rejects with it before \<open>setPopup\<close> is reached, and the page is left
  without any notification.
\<close>

theorem onFailure_unparsable_body_no_popup:
  "onFailure (Response (Inl SyntaxError)) (initial_state\<lparr>modal := True\<rparr>) = Inl SyntaxError
   \<and> step False (example_cache (Some []) (Some []) None)
        (BulkAddFailure (Response (Inl SyntaxError))) (initial_state\<lparr>modal := True\<rparr>)
     = initial_state\<lparr>modal := True\<rparr>
   \<and> popup
       (step False (example_cache (Some []) (Some []) None)
         (BulkAddFailure (Response (Inl SyntaxError))) (initial_state\<lparr>modal := True\<rparr>))
     = None"
  by (simp add: onFailure_def initial_state_def)

text \<open>
  Claim C5, amended: a failing bulk invite leaves the modal as it is (open) and fetches
  nothing again, whatever the response. Whenever the body parses, \<open>detail\<close> can be read
  off it and converted to a string, the only change to the page is the error popup
  \<open>Failed to invite users - \<close> followed by that string; when the body is an object
  whose \<open>detail\<close> is a string, that is the string itself, which the message therefore
  contains. When \<open>onFailure\<close> rejects, as it does on a body that is not JSON or is
  \<open>null\<close>, the page is left as it was, without a notification.
\<close>

theorem onFailure_keeps_modal_and_notifies:
  "modal (step cloud cache (BulkAddFailure res) s) = modal s
   \<and> revalidated (step cloud cache (BulkAddFailure res) s) = revalidated s
   \<and> (\<forall>body v text. json res = Inr body \<and> get_detail body = Inr v \<and> ToString v = Inr text \<longrightarrow>
         step cloud cache (BulkAddFailure res) s
           = s\<lparr>popup := Some \<lparr>message = ''Failed to invite users - '' @ text,
                                type = error_popup\<rparr>\<rparr>)
   \<and> (\<forall>ps d. json res = Inr (JObject ps) \<and> map_of ps ''detail'' = Some (JString d) \<longrightarrow>
         onFailure res s
           = Inr (s\<lparr>popup := Some \<lparr>message = ''Failed to invite users - '' @ d,
                                     type = error_popup\<rparr>\<rparr>)
         \<and> step cloud cache (BulkAddFailure res) s
           = s\<lparr>popup := Some \<lparr>message = ''Failed to invite users - '' @ d,
                                type = error_popup\<rparr>\<rparr>
         \<and> sublist d (''Failed to invite users - '' @ d))
   \<and> (\<forall>e. onFailure res s = Inl e \<longrightarrow> step cloud cache (BulkAddFailure res) s = s)
   \<and> (\<forall>e. json res = Inl e \<longrightarrow> onFailure res s = Inl e)
   \<and> (json res = Inr JNull \<longrightarrow> onFailure res s = Inl TypeError)"
proof -
  have frame: "modal s' = modal s \<and> revalidated s' = revalidated s"
    if "onFailure res s = Inr s'" for s'
    using that by (auto simp: onFailure_def setPopup_def split: sum.splits)
  have "modal (step cloud cache (BulkAddFailure res) s) = modal s"
    and "revalidated (step cloud cache (BulkAddFailure res) s) = revalidated s"
    using frame by (auto split: sum.splits)
  moreover have "sublist d (''Failed to invite users - '' @ d)" for d :: string
    unfolding sublist_def
    by (intro exI [of _ "''Failed to invite users - ''"] exI [of _ "[]"]) simp
  ultimately show ?thesis
    by (auto simp: onFailure_def setPopup_def)
qed

theorem onFailure_keeps_modal_and_notifies_witness:
  "json (Response (Inr (JObject [(''detail'', JString ''domain not allowed'')])))
     = Inr (JObject [(''detail'', JString ''domain not allowed'')])
   \<and> map_of [(''detail'', JString ''domain not allowed'')] ''detail''
     = Some (JString ''domain not allowed'')
   \<and> step False (example_cache (Some []) (Some []) None)
        (BulkAddFailure (Response (Inr (JObject [(''detail'', JString ''domain not allowed'')]))))
        (initial_state\<lparr>modal := True\<rparr>)
     = initial_state\<lparr>modal := True,
         popup := Some \<lparr>message = ''Failed to invite users - domain not allowed'',
                         type = error_popup\<rparr>\<rparr>"
  using onFailure_keeps_modal_and_notifies
    [of False "example_cache (Some []) (Some []) None"
      "Response (Inr (JObject [(''detail'', JString ''domain not allowed'')]))"
      "initial_state\<lparr>modal := True\<rparr>"]
  by (simp del: step.simps)

subsection \<open>The pending users of a multi-tenant deployment\<close>

text \<open>
  Claim C6: with the multi-tenant flag false, whatever the cache holds and whatever the
  state of the page, neither \<open>UsersTables\<close> nor the page as a whole subscribes to the
  key \<open>/api/tenants/users/pending\<close>, so it is never fetched, and what
  \<open>UsersTables\<close> renders has no \<open>pending\<close> tab and no table of pending users.
\<close>

theorem single_tenant_no_pending:
  assumes "\<not> cloud"
  shows "StringKey ''/api/tenants/users/pending'' \<notin> set (fst (UsersTables cloud cache qp))
    \<and> StringKey ''/api/tenants/users/pending'' \<notin> set (fst (SearchableTables cloud cache s))
    \<and> ''pending'' \<notin> set (tab_values (snd (UsersTables cloud cache qp)))
    \<and> filter is_pending_table (tables (snd (UsersTables cloud cache qp))) = []
    \<and> users_tables (snd (SearchableTables cloud cache s))
        = snd (UsersTables cloud cache (q s))"
  using assms
  by (simp add: UsersTables_def SearchableTables_def AddUserButton_def AddUserButton_useSWR_def
      useSWR_def)

theorem single_tenant_no_pending_witness:
  "fst (SearchableTables False (example_cache (Some []) (Some []) None) initial_state)
       = [StringKey ''/api/manage/users/invited'', StringKey ''/api/manage/users/invited'',
          StringKey ''/api/manage/admin/valid-domains'']
   \<and> StringKey ''/api/tenants/users/pending''
       \<notin> set (fst (SearchableTables False (example_cache (Some []) (Some []) None)
                  initial_state))
   \<and> tab_values (snd (UsersTables False (example_cache (Some []) (Some []) None) []))
       = [''current'', ''invited'']
   \<and> ''pending''
       \<notin> set (tab_values (snd (UsersTables False (example_cache (Some []) (Some []) None) [])))"
  using single_tenant_no_pending
    [of False "example_cache (Some []) (Some []) None" "[]" initial_state]
  by (simp add: UsersTables_def SearchableTables_def AddUserButton_def
      AddUserButton_useSWR_def useSWR_def example_cache_def)

subsection \<open>The search controller\<close>

text \<open>
  Claim C7: the committed query \<open>q\<close> becomes a copy of the draft \<open>query\<close> on
  \<open>onSearch\<close>; every other event of the page, a keystroke in the search bar among
  them, leaves \<open>q\<close> as it was, and with it what \<open>UsersTables\<close> renders from the same
  cache. A keystroke changes the draft alone.
\<close>

theorem committed_query_changes_only_on_search:
  "q (step cloud cache OnSearch s) = query s
   \<and> (e \<noteq> OnSearch \<longrightarrow>
        q (step cloud cache e s) = q s
        \<and> users_tables (snd (SearchableTables cloud cache (step cloud cache e s)))
            = users_tables (snd (SearchableTables cloud cache s)))
   \<and> q (step cloud cache (SetQuery text) s) = q s
   \<and> query (step cloud cache (SetQuery text) s) = text"
proof -
  have keep: "q (step cloud cache e s) = q s" if "e \<noteq> OnSearch"
    using that
    by (cases e)
      (auto simp: onSuccess_def onFailure_def handleInviteClick_def
        handleConfirmFirstInvite_def setPopup_def split: sum.splits)
  then show ?thesis
    by (simp add: users_tables_of_page)
qed

theorem committed_query_changes_only_on_search_witness:
  "SetQuery ''al'' \<noteq> OnSearch
   \<and> q (step False (example_cache (Some []) (Some []) None) (SetQuery ''al'') initial_state)
       = []
   \<and> q (step False (example_cache (Some []) (Some []) None) OnSearch
          (step False (example_cache (Some []) (Some []) None) (SetQuery ''al'') initial_state))
       = ''al''"
  using committed_query_changes_only_on_search
      [of False "example_cache (Some []) (Some []) None" initial_state "SetQuery ''al''" "''al''"]
    committed_query_changes_only_on_search
      [of False "example_cache (Some []) (Some []) None"
        "step False (example_cache (Some []) (Some []) None) (SetQuery ''al'') initial_state"
        "SetQuery ''al''" "''al''"]
  by (simp add: initial_state_def del: step.simps)

subsection \<open>What a successful invite leaves alone\<close>

text \<open>
  Claim C8: the filter \<open>onSuccess\<close> gives to \<open>mutate\<close> accepts a key exactly when it
  is a string starting with \<open>/api/manage/users\<close>. The valid-domains key
  \<open>/api/manage/admin/valid-domains\<close> does not match, so it is not among the keys a
  successful invite revalidates, whatever keys the cache holds.
\<close>

theorem onSuccess_leaves_valid_domains:
  "\<not> onSuccess_filter (StringKey ''/api/manage/admin/valid-domains'')
   \<and> StringKey ''/api/manage/admin/valid-domains''
       \<notin> set (mutate onSuccess_filter held hooks)
   \<and> revalidated (step cloud cache BulkAddSuccess s)
       = revalidated s
           @ mutate onSuccess_filter (held_keys cloud cache s) (mounted_hooks cloud cache s)
   \<and> onSuccess_filter (StringKey k) = startsWith k ''/api/manage/users''
   \<and> \<not> onSuccess_filter (ArrayKey ks)
   \<and> startsWith k ''/api/manage/users'' = (\<exists>rest. k = ''/api/manage/users'' @ rest)"
  using onSuccess_filter_valid_domains
  by (simp add: onSuccess_def mutate_def setPopup_def onSuccess_filter_def startsWith_def
      prefix_def)

theorem onSuccess_leaves_valid_domains_witness:
  "StringKey ''/api/manage/admin/valid-domains''
     \<in> set (mounted_hooks False (example_cache (Some []) (Some [''x.com'']) None) initial_state)
   \<and> StringKey ''/api/manage/admin/valid-domains''
     \<in> set (held_keys False (example_cache (Some []) (Some [''x.com'']) None) initial_state)
   \<and> StringKey ''/api/manage/admin/valid-domains''
     \<notin> set (revalidated
         (step False (example_cache (Some []) (Some [''x.com'']) None) BulkAddSuccess
           initial_state))"
proof -
  have h: "StringKey ''/api/manage/admin/valid-domains''
      \<in> set (mounted_hooks False (example_cache (Some []) (Some [''x.com'']) None)
          initial_state)"
    by (simp add: mounted_hooks_def SearchableTables_def AddUserButton_def
        AddUserButton_useSWR_def UsersTables_def useSWR_def)
  then have "StringKey ''/api/manage/admin/valid-domains''
      \<in> set (held_keys False (example_cache (Some []) (Some [''x.com'']) None) initial_state)"
    by (simp add: held_keys_def)
  with h show ?thesis
    using onSuccess_leaves_valid_domains
      [of "held_keys False (example_cache (Some []) (Some [''x.com'']) None) initial_state"
        "mounted_hooks False (example_cache (Some []) (Some [''x.com'']) None) initial_state"
        False "example_cache (Some []) (Some [''x.com'']) None" initial_state]
    by (simp add: initial_state_def del: step.simps)
qed

subsection \<open>The invited users, in the gate and in the tables\<close>

text \<open>
  Claim C9: when the invited-users entry has no data, every table that
  \<open>UsersTables\<close> renders from it is given the empty list: the \<open>invitedUsers\<close> of the
  table of current users and the \<open>users\<close> of the table of invited users are \<open>[]\<close>.
  The tables are not held back for it: once the valid domains are there without error,
  both are rendered, with the empty list.
\<close>

theorem tables_get_empty_list_without_invited_data:
  assumes "data (user_lists cache (StringKey ''/api/manage/users/invited'')) = None"
  shows "cross_referenced (tables (snd (UsersTables cloud cache qp))) \<in> {None, Some []}
    \<and> displayed_invited (tables (snd (UsersTables cloud cache qp))) \<in> {None, Some []}
    \<and> (\<forall>ds. data (string_lists cache (StringKey ''/api/manage/admin/valid-domains'')) = Some ds
           \<and> error (string_lists cache (StringKey ''/api/manage/admin/valid-domains'')) = None
         \<longrightarrow> cross_referenced (tables (snd (UsersTables cloud cache qp))) = Some []
           \<and> displayed_invited (tables (snd (UsersTables cloud cache qp))) = Some [])"
  using assms by (simp add: UsersTables_def useSWR_def or_empty_def)

theorem tables_get_empty_list_without_invited_data_witness:
  "data (user_lists (example_cache None (Some [''x.com'']) None)
       (StringKey ''/api/manage/users/invited'')) = None
   \<and> data (string_lists (example_cache None (Some [''x.com'']) None)
       (StringKey ''/api/manage/admin/valid-domains'')) = Some [''x.com'']
   \<and> error (string_lists (example_cache None (Some [''x.com'']) None)
       (StringKey ''/api/manage/admin/valid-domains'')) = None
   \<and> cross_referenced
       (tables (snd (UsersTables True (example_cache None (Some [''x.com'']) None) ''bob'')))
     = Some []
   \<and> displayed_invited
       (tables (snd (UsersTables True (example_cache None (Some [''x.com'']) None) ''bob'')))
     = Some []"
proof -
  have h: "data (user_lists (example_cache None (Some [''x.com'']) None)
      (StringKey ''/api/manage/users/invited'')) = None"
    "data (string_lists (example_cache None (Some [''x.com'']) None)
      (StringKey ''/api/manage/admin/valid-domains'')) = Some [''x.com'']"
    "error (string_lists (example_cache None (Some [''x.com'']) None)
      (StringKey ''/api/manage/admin/valid-domains'')) = None"
    by (simp_all add: example_cache_def)
  show ?thesis
    using tables_get_empty_list_without_invited_data
      [of "example_cache None (Some [''x.com'']) None" True "''bob''"] h
    by simp
qed

text \<open>
  Claim C10, as stated, has the gate computed from the very set the table of invited
  users displays, in every state. While the invited-users entry has no data, the table
  is given the empty list, and the gate reads \<open>undefined\<close>, which it does not treat as
  the empty list: in a single-tenant deployment the click opens the modal, where the
  gate computed from the displayed list would have asked for the confirmation.
\<close>

theorem gate_reads_unknown_where_view_shows_empty:
  "data (fst (AddUserButton_useSWR (example_cache None (Some [''x.com'']) None))) = None
   \<and> displayed_invited
       (tables (snd (UsersTables False (example_cache None (Some [''x.com'']) None) [])))
     = Some []
   \<and> data (fst (AddUserButton_useSWR (example_cache None (Some [''x.com'']) None)))
     \<noteq> displayed_invited
         (tables (snd (UsersTables False (example_cache None (Some [''x.com'']) None) [])))
   \<and> snd (AddUserButton (example_cache None (Some [''x.com'']) None)
        (step False (example_cache None (Some [''x.com'']) None) InviteClick initial_state))
     = [BulkAddModal]
   \<and> snd (AddUserButton (example_cache None (Some [''x.com'']) None)
        (handleInviteClick False
          (displayed_invited
            (tables (snd (UsersTables False (example_cache None (Some [''x.com'']) None) []))))
          initial_state))
     = [ConfirmEntityModal]"
  by (simp add: UsersTables_def AddUserButton_def AddUserButton_useSWR_def useSWR_def
      or_empty_def handleInviteClick_def example_cache_def initial_state_def)

text \<open>
  Claim C10, amended: \<open>AddUserButton\<close> and \<open>UsersTables\<close> subscribe to the same key
  \<open>/api/manage/users/invited\<close>, and the gate of \<open>handleInviteClick\<close> is computed from
  the data of that entry. Whenever the entry has data and the table of invited users is
  rendered, the list the gate reads is the list the table shows. While the entry has no
  data the table is given the empty list, and the gate reads the entry as unknown and
  opens the modal.
\<close>

theorem gate_and_invited_view_share_entry:
  "snd (AddUserButton_useSWR cache) = [StringKey ''/api/manage/users/invited'']
   \<and> fst (AddUserButton cache s) = [StringKey ''/api/manage/users/invited'']
   \<and> hd (fst (UsersTables cloud cache qp)) = StringKey ''/api/manage/users/invited''
   \<and> step cloud cache InviteClick s
       = handleInviteClick cloud (data (fst (AddUserButton_useSWR cache))) s
   \<and> displayed_invited (tables (snd (UsersTables cloud cache qp)))
       \<in> {None, Some (or_empty (data (fst (AddUserButton_useSWR cache))))}
   \<and> (\<forall>us. data (fst (AddUserButton_useSWR cache)) = Some us
         \<and> displayed_invited (tables (snd (UsersTables cloud cache qp))) \<noteq> None
        \<longrightarrow> displayed_invited (tables (snd (UsersTables cloud cache qp))) = Some us)
   \<and> (\<forall>ds. data (string_lists cache (StringKey ''/api/manage/admin/valid-domains'')) = Some ds
           \<and> error (string_lists cache (StringKey ''/api/manage/admin/valid-domains'')) = None
         \<longrightarrow> displayed_invited (tables (snd (UsersTables cloud cache qp)))
              = Some (or_empty (data (fst (AddUserButton_useSWR cache)))))
   \<and> (data (fst (AddUserButton_useSWR cache)) = None
        \<longrightarrow> displayed_invited (tables (snd (UsersTables cloud cache qp))) \<in> {None, Some []}
          \<and> modal (step cloud cache InviteClick s)
          \<and> showConfirmation (step cloud cache InviteClick s) = showConfirmation s)"
  by (simp add: UsersTables_def AddUserButton_def AddUserButton_useSWR_def useSWR_def
      or_empty_def handleInviteClick_def)

theorem gate_and_invited_view_share_entry_witness:
  "data (fst (AddUserButton_useSWR (example_cache (Some [''a@x.com'']) (Some [''x.com'']) None)))
     = Some [''a@x.com'']
   \<and> data (string_lists (example_cache (Some [''a@x.com'']) (Some [''x.com'']) None)
       (StringKey ''/api/manage/admin/valid-domains'')) = Some [''x.com'']
   \<and> error (string_lists (example_cache (Some [''a@x.com'']) (Some [''x.com'']) None)
       (StringKey ''/api/manage/admin/valid-domains'')) = None
   \<and> displayed_invited
       (tables (snd (UsersTables False
         (example_cache (Some [''a@x.com'']) (Some [''x.com'']) None) [])))
     = Some [''a@x.com'']
   \<and> data (fst (AddUserButton_useSWR (example_cache None (Some [''x.com'']) None))) = None
   \<and> modal (step False (example_cache None (Some [''x.com'']) None) InviteClick initial_state)"
proof -
  have h: "data (fst (AddUserButton_useSWR
        (example_cache (Some [''a@x.com'']) (Some [''x.com'']) None)))
      = Some [''a@x.com'']"
    "data (string_lists (example_cache (Some [''a@x.com'']) (Some [''x.com'']) None)
      (StringKey ''/api/manage/admin/valid-domains'')) = Some [''x.com'']"
    "error (string_lists (example_cache (Some [''a@x.com'']) (Some [''x.com'']) None)
      (StringKey ''/api/manage/admin/valid-domains'')) = None"
    "data (fst (AddUserButton_useSWR (example_cache None (Some [''x.com'']) None))) = None"
    by (simp_all add: AddUserButton_useSWR_def useSWR_def example_cache_def)
  show ?thesis
    using gate_and_invited_view_share_entry
        [of "example_cache (Some [''a@x.com'']) (Some [''x.com'']) None"
          initial_state False "[]"]
      gate_and_invited_view_share_entry
        [of "example_cache None (Some [''x.com'']) None" initial_state False "[]"] h
    by (simp add: or_empty_def handleInviteClick_def del: step.simps)
qed

end
